theory Spec2Isabelle
  imports Complex_Main "HOL-Library.Word"
begin

unbundle bit_operations_syntax

section \<open>Pedestrian costing (src/sif/pedestriancost.cc)\<close>

text \<open>
  A shallow embedding of \<^verbatim>\<open>valhalla::sif::PedestrianCost\<close>.

  Numbers. \<^verbatim>\<open>uint32_t\<close> is \<open>32 word\<close>. A finite \<^verbatim>\<open>float\<close> is a \<open>real\<close>. A
  \<^verbatim>\<open>float\<close> computed by a division is a \<open>float\<close> below, where \<open>None\<close> stands for a
  non-finite IEEE value (an infinity or a NaN), which is what a zero divisor produces.

  Rounding. Where the code converts the result of float arithmetic to an integer (the
  ferry penalty of the constructor), every operation is rounded to single precision by
  \<open>round_float\<close>, because the conversion turns a rounding error in the last digit into a
  whole unit. Everywhere else the arithmetic is exact: there single precision changes a
  result in its last digits only, and overflow is not modelled.
\<close>

subsection \<open>Numbers\<close>

type_synonym uint32_t = "32 word"

type_synonym float = "real option"

definition fdiv :: "real \<Rightarrow> real \<Rightarrow> float" where
  \<comment> \<open>\<^verbatim>\<open>x / y\<close> on finite operands; non-finite when the divisor is zero.\<close>
  "fdiv x y = (if y = 0 then None else Some (x / y))"

definition fmul :: "float \<Rightarrow> float \<Rightarrow> float" where
  \<comment> \<open>\<^verbatim>\<open>a * b\<close>; a non-finite operand gives a non-finite product.\<close>
  "fmul a b = (case a of None \<Rightarrow> None | Some x \<Rightarrow> (case b of None \<Rightarrow> None | Some y \<Rightarrow> Some (x * y)))"

text \<open>
  Rounding to IEEE single precision (binary32): 24 significant bits, exponents from -126
  to 127, round to nearest, ties to even. \<open>float_exponent x\<close> is the exponent of the
  binade of \<open>x\<close>, found by counting up from -126 (the binade of the subnormal numbers
  and of zero) and stopping at 127; the values of a binade are the multiples of its
  quantum, 2 to the power of the exponent minus 23. Beyond the largest finite value the
  code gets an infinity; the model rounds on the grid of the top binade there, and no
  theorem below reads it there.
\<close>

fun binade :: "nat \<Rightarrow> int \<Rightarrow> real \<Rightarrow> int" where
  "binade 0 e x = e"
| "binade (Suc n) e x = (if \<bar>x\<bar> < 2 powi (e + 1) then e else binade n (e + 1) x)"

definition float_exponent :: "real \<Rightarrow> int" where
  "float_exponent x = binade 253 (- 126) x"

definition round_half_even :: "real \<Rightarrow> int" where
  "round_half_even r =
     (if r - of_int \<lfloor>r\<rfloor> < 1 / 2 then \<lfloor>r\<rfloor>
      else if 1 / 2 < r - of_int \<lfloor>r\<rfloor> then \<lfloor>r\<rfloor> + 1
      else if even \<lfloor>r\<rfloor> then \<lfloor>r\<rfloor> else \<lfloor>r\<rfloor> + 1)"

definition round_float :: "real \<Rightarrow> real" where
  "round_float x =
     of_int (round_half_even (x / 2 powi (float_exponent x - 23))) *
       2 powi (float_exponent x - 23)"

definition float_of_uint32 :: "uint32_t \<Rightarrow> real" where
  "float_of_uint32 w = real (unat w)"

definition uint32_of_float :: "real \<Rightarrow> uint32_t" where
  \<comment> \<open>Conversion of a float to \<^verbatim>\<open>uint32_t\<close>: the fraction is dropped. C++ leaves the
      result undefined when the truncated value is not in \<open>[0, 2^32)\<close>; the model wraps
      there, and no theorem below reads it outside that interval.\<close>
  "uint32_of_float x = word_of_int (if 0 \<le> x then \<lfloor>x\<rfloor> else \<lceil>x\<rceil>)"

subsection \<open>The graph data read by the costing\<close>

text \<open>
  The declarations of \<^verbatim>\<open>baldr::DirectedEdge\<close>, \<^verbatim>\<open>baldr::NodeInfo\<close>, \<^verbatim>\<open>EdgeLabel\<close> and
  of the enumerations are not part of the sources at hand. The records hold one field for
  each accessor that \<^verbatim>\<open>pedestriancost.cc\<close> calls; an accessor with an argument is a
  function field. The enumerations list the enumerators the file names, and one more for
  all the others. The stop impact of an edge is one of 8 levels (the size of
  \<^verbatim>\<open>kCrossingCosts\<close>), a 3-bit value here, so that the table is always read within
  its bounds.
\<close>

datatype Use = kRoad | kFootway | kSidewalk | kAlley | kDriveway | kSteps | kFerry
  | kTransitConnection | kOtherUse

datatype NodeType = kStreetIntersection | kGate | kBorderControl | kOtherNodeType

datatype PedestrianType = kFoot | kWheelchair | kSegway

text \<open>\<^verbatim>\<open>Surface\<close> is an ordered classification, a higher value being a worse surface.\<close>

type_synonym Surface = nat

type_synonym GraphId = "64 word"

record DirectedEdge =
  edge_length :: uint32_t
  use :: Use
  surface :: Surface
  forwardaccess :: uint32_t
  is_shortcut :: bool
  speed :: uint32_t
  roundabout :: bool
  link :: bool
  localedgeidx :: uint32_t
  edge_to_right :: "uint32_t \<Rightarrow> bool"
  edge_to_left :: "uint32_t \<Rightarrow> bool"
  stopimpact :: "uint32_t \<Rightarrow> 3 word"

record NodeInfo =
  node_type :: NodeType
  node_access :: uint32_t
  name_consistency :: "uint32_t \<Rightarrow> uint32_t \<Rightarrow> bool"

record EdgeLabel =
  path_distance :: uint32_t
  pred_use :: Use
  opp_local_idx :: uint32_t

record Cost =
  cost :: float
  secs :: float

text \<open>
  Constants of \<^verbatim>\<open>baldr/graphconstants.h\<close> whose values the sources at hand do not give:
  they are parameters of the model.
\<close>

record Externals =
  kPedestrianAccess :: uint32_t
  kWheelchairAccess :: uint32_t
  Surface_kCompacted :: Surface
  Surface_kPath :: Surface
  PedestrianType_code :: "PedestrianType \<Rightarrow> 8 word"

subsection \<open>Default options/values\<close>

definition kMaxDistanceFoot :: uint32_t where "kMaxDistanceFoot = 100000"
definition kMaxDistanceWheelchair :: uint32_t where "kMaxDistanceWheelchair = 10000"

definition kDefaultSpeedFoot :: real where "kDefaultSpeedFoot = 5.1"
definition kDefaultSpeedWheelchair :: real where "kDefaultSpeedWheelchair = 4.0"

definition kDefaultStepPenaltyFoot :: real where "kDefaultStepPenaltyFoot = 30.0"
definition kDefaultStepPenaltyWheelchair :: real where "kDefaultStepPenaltyWheelchair = 600.0"

definition kDefaultMaxGradeFoot :: uint32_t where "kDefaultMaxGradeFoot = 90"
definition kDefaultMaxGradeWheelchair :: uint32_t where "kDefaultMaxGradeWheelchair = 12"

definition kModeWeight :: real where "kModeWeight = 1.5"
definition kDefaultManeuverPenalty :: real where "kDefaultManeuverPenalty = 5.0"
definition kDefaultGatePenalty :: real where "kDefaultGatePenalty = 10.0"
definition kDefaultWalkwayFactor :: real where "kDefaultWalkwayFactor = 0.9"
definition kDefaultSideWalkFactor :: real where "kDefaultSideWalkFactor = 0.95"
definition kDefaultAlleyFactor :: real where "kDefaultAlleyFactor = 2.0"
definition kDefaultDrivewayFactor :: real where "kDefaultDrivewayFactor = 5.0"
definition kDefaultFerryCost :: real where "kDefaultFerryCost = 300.0"
definition kDefaultCountryCrossingCost :: real where "kDefaultCountryCrossingCost = 600.0"
definition kDefaultCountryCrossingPenalty :: real where "kDefaultCountryCrossingPenalty = 0.0"
definition kDefaultUseFerry :: real where "kDefaultUseFerry = 1.0"

definition kTransitStartEndMaxDistance :: uint32_t where "kTransitStartEndMaxDistance = 2415"
definition kTransitTransferMaxDistance :: uint32_t where "kTransitTransferMaxDistance = 805"

definition kRoundaboutFactor :: real where "kRoundaboutFactor = 5.0"

definition kSecPerHour :: real where
  \<comment> \<open>Modelled from the spec: \<^verbatim>\<open>kSecPerHour\<close> of \<^verbatim>\<open>midgard/constants.h\<close>, which is not
      among the sources; the spec computes the speed factor as 3600 * 0.001 / speed.\<close>
  "kSecPerHour = 3600"

definition kMaxFerryPenalty :: real where "kMaxFerryPenalty = 8.0 * 3600.0"

definition kMinPedestrianSpeed :: real where "kMinPedestrianSpeed = 0.5"
definition kMaxPedestrianSpeed :: real where "kMaxPedestrianSpeed = 25.0"

definition kCrossingCosts :: "uint32_t list" where
  "kCrossingCosts = [0, 0, 1, 1, 2, 3, 5, 15]"

definition kMaxSeconds :: real where "kMaxSeconds = 12.0 * kSecPerHour"

definition kMaxFactor :: real where "kMaxFactor = 20.0"

subsection \<open>Valid ranges and defaults\<close>

text \<open>
  \<^verbatim>\<open>ranged_default_t<float>\<close> is declared outside the sources at hand; the initialisers
  and the test of the file use it as the triple \<^verbatim>\<open>{min, def, max}\<close>.
\<close>

record ranged_default_t =
  rmin :: real
  rdef :: real
  rmax :: real

definition kMaxDistanceWheelchairRange :: ranged_default_t where
  "kMaxDistanceWheelchairRange = \<lparr>rmin = 0, rdef = float_of_uint32 kMaxDistanceWheelchair,
     rmax = float_of_uint32 kMaxDistanceWheelchair\<rparr>"

definition kMaxDistanceFootRange :: ranged_default_t where
  "kMaxDistanceFootRange = \<lparr>rmin = 0, rdef = float_of_uint32 kMaxDistanceFoot,
     rmax = float_of_uint32 kMaxDistanceFoot\<rparr>"

definition kSpeedWheelchairRange :: ranged_default_t where
  "kSpeedWheelchairRange = \<lparr>rmin = kMinPedestrianSpeed, rdef = kDefaultSpeedWheelchair,
     rmax = kMaxPedestrianSpeed\<rparr>"

definition kSpeedFootRange :: ranged_default_t where
  "kSpeedFootRange = \<lparr>rmin = kMinPedestrianSpeed, rdef = kDefaultSpeedFoot,
     rmax = kMaxPedestrianSpeed\<rparr>"

definition kStepPenaltyWheelchairRange :: ranged_default_t where
  "kStepPenaltyWheelchairRange = \<lparr>rmin = 0, rdef = kDefaultStepPenaltyWheelchair,
     rmax = kMaxSeconds\<rparr>"

definition kStepPenaltyFootRange :: ranged_default_t where
  "kStepPenaltyFootRange = \<lparr>rmin = 0, rdef = kDefaultStepPenaltyFoot, rmax = kMaxSeconds\<rparr>"

definition kMaxGradeWheelchairRange :: ranged_default_t where
  "kMaxGradeWheelchairRange = \<lparr>rmin = 0, rdef = float_of_uint32 kDefaultMaxGradeWheelchair,
     rmax = float_of_uint32 kMaxDistanceWheelchair\<rparr>"

definition kMaxGradeFootRange :: ranged_default_t where
  "kMaxGradeFootRange = \<lparr>rmin = 0, rdef = float_of_uint32 kDefaultMaxGradeFoot,
     rmax = float_of_uint32 kMaxDistanceFoot\<rparr>"

definition kModeWeightRange :: ranged_default_t where
  "kModeWeightRange = \<lparr>rmin = 0, rdef = kModeWeight, rmax = kMaxFactor\<rparr>"

definition kManeuverPenaltyRange :: ranged_default_t where
  "kManeuverPenaltyRange = \<lparr>rmin = 0, rdef = kDefaultManeuverPenalty, rmax = kMaxSeconds\<rparr>"

definition kGatePenaltyRange :: ranged_default_t where
  "kGatePenaltyRange = \<lparr>rmin = 0, rdef = kDefaultGatePenalty, rmax = kMaxSeconds\<rparr>"

definition kWalkwayFactorRange :: ranged_default_t where
  "kWalkwayFactorRange = \<lparr>rmin = 0, rdef = kDefaultWalkwayFactor, rmax = kMaxFactor\<rparr>"

definition kSideWalkFactorRange :: ranged_default_t where
  "kSideWalkFactorRange = \<lparr>rmin = 0, rdef = kDefaultSideWalkFactor, rmax = kMaxFactor\<rparr>"

definition kAlleyFactorRange :: ranged_default_t where
  "kAlleyFactorRange = \<lparr>rmin = 0, rdef = kDefaultAlleyFactor, rmax = kMaxFactor\<rparr>"

definition kDrivewayFactorRange :: ranged_default_t where
  "kDrivewayFactorRange = \<lparr>rmin = 0, rdef = kDefaultDrivewayFactor, rmax = kMaxFactor\<rparr>"

definition kFerryCostRange :: ranged_default_t where
  "kFerryCostRange = \<lparr>rmin = 0, rdef = kDefaultFerryCost, rmax = kMaxSeconds\<rparr>"

definition kCountryCrossingCostRange :: ranged_default_t where
  "kCountryCrossingCostRange = \<lparr>rmin = 0, rdef = kDefaultCountryCrossingCost,
     rmax = kMaxSeconds\<rparr>"

definition kCountryCrossingPenaltyRange :: ranged_default_t where
  "kCountryCrossingPenaltyRange = \<lparr>rmin = 0, rdef = kDefaultCountryCrossingPenalty,
     rmax = kMaxSeconds\<rparr>"

definition kUseFerryRange :: ranged_default_t where
  "kUseFerryRange = \<lparr>rmin = 0, rdef = kDefaultUseFerry, rmax = 1.0\<rparr>"

definition kTransitStartEndMaxDistanceRange :: ranged_default_t where
  "kTransitStartEndMaxDistanceRange = \<lparr>rmin = 0,
     rdef = float_of_uint32 kTransitStartEndMaxDistance,
     rmax = float_of_uint32 kTransitStartEndMaxDistance\<rparr>"

definition kTransitTransferMaxDistanceRange :: ranged_default_t where
  "kTransitTransferMaxDistanceRange = \<lparr>rmin = 0,
     rdef = float_of_uint32 kTransitTransferMaxDistance,
     rmax = float_of_uint32 kTransitTransferMaxDistance\<rparr>"

subsection \<open>The property tree\<close>

text \<open>
  The settings object is a flat \<^verbatim>\<open>boost::property_tree::ptree\<close>: a map from a key to
  its data. \<^verbatim>\<open>pt.get<T>(key, dflt)\<close> returns the data of the key converted to \<open>T\<close>,
  and \<open>dflt\<close> when the key is absent or its data does not convert; it never throws. The
  text conversions are the library's: a datum carries their results (\<open>None\<close> where the
  text does not convert).
\<close>

record pdata =
  as_string :: string
  as_float :: "real option"
  as_uint32 :: "uint32_t option"

type_synonym ptree = "string \<rightharpoonup> pdata"

definition get_string :: "ptree \<Rightarrow> string \<Rightarrow> string \<Rightarrow> string" where
  "get_string pt k dflt = (case pt k of None \<Rightarrow> dflt | Some d \<Rightarrow> as_string d)"

definition get_float :: "ptree \<Rightarrow> string \<Rightarrow> real \<Rightarrow> real" where
  "get_float pt k dflt =
     (case pt k of None \<Rightarrow> dflt
      | Some d \<Rightarrow> (case as_float d of None \<Rightarrow> dflt | Some x \<Rightarrow> x))"

definition get_uint32 :: "ptree \<Rightarrow> string \<Rightarrow> uint32_t \<Rightarrow> uint32_t" where
  "get_uint32 pt k dflt =
     (case pt k of None \<Rightarrow> dflt
      | Some d \<Rightarrow> (case as_uint32 d of None \<Rightarrow> dflt | Some x \<Rightarrow> x))"

subsection \<open>The profile\<close>

text \<open>
  The fields of \<^verbatim>\<open>PedestrianCost\<close> (a member \<^verbatim>\<open>x_\<close> is the field \<open>x_'\<close>, since an
  identifier cannot end in an underscore), and the two members of its base class
  \<^verbatim>\<open>DynamicCost\<close> that its methods read: the flag \<^verbatim>\<open>allow_transit_connections_\<close> and
  the avoid list behind \<^verbatim>\<open>IsUserAvoidEdge\<close>, a predicate on edge ids here.
\<close>

record PedestrianCost =
  allow_transit_connections_' :: bool
  IsUserAvoidEdge :: "GraphId \<Rightarrow> bool"
  type_' :: PedestrianType
  access_mask_' :: uint32_t
  max_distance_' :: uint32_t
  mode_weight_' :: real
  transit_start_end_max_distance_' :: uint32_t
  transit_transfer_max_distance_' :: uint32_t
  minimal_allowed_surface_' :: Surface
  max_grade_' :: uint32_t
  speed_' :: real
  speedfactor_' :: float
  walkway_factor_' :: real
  sidewalk_factor_' :: real
  alley_factor_' :: real
  driveway_factor_' :: real
  step_penalty_' :: real
  gate_penalty_' :: real
  maneuver_penalty_' :: real
  country_crossing_cost_' :: real
  country_crossing_penalty_' :: real
  ferry_cost_' :: real
  ferry_penalty_' :: real
  ferry_weight_' :: real
  use_ferry_' :: real

text \<open>
  The constructor. The avoid list is filled by the base class from the request, so it is
  an argument here; the hierarchy limits of the base class are read by no method below
  and are left out.
\<close>

definition PedestrianCost_ctor ::
  "Externals \<Rightarrow> (GraphId \<Rightarrow> bool) \<Rightarrow> ptree \<Rightarrow> PedestrianCost" where
  "PedestrianCost_ctor ext avoid pt =
    (let type = get_string pt ''type'' ''foot'';
         wheelchair = (type = ''wheelchair'');
         use_ferry = get_float pt ''use_ferry'' kDefaultUseFerry;
         speed' =
           (if wheelchair then get_float pt ''walking_speed'' kDefaultSpeedWheelchair
            else get_float pt ''walking_speed'' kDefaultSpeedFoot)
     in \<lparr> allow_transit_connections_' = False,
          IsUserAvoidEdge = avoid,
          type_' =
            (if type = ''wheelchair'' then kWheelchair
             else if type = ''segway'' then kSegway
             else kFoot),
          access_mask_' = (if wheelchair then kWheelchairAccess ext else kPedestrianAccess ext),
          max_distance_' =
            (if wheelchair then get_uint32 pt ''max_distance'' kMaxDistanceWheelchair
             else get_uint32 pt ''max_distance'' kMaxDistanceFoot),
          mode_weight_' = get_float pt ''mode_weight'' kModeWeight,
          transit_start_end_max_distance_' =
            get_uint32 pt ''transit_start_end_max_distance'' kTransitStartEndMaxDistance,
          transit_transfer_max_distance_' =
            get_uint32 pt ''transit_transfer_max_distance'' kTransitTransferMaxDistance,
          minimal_allowed_surface_' =
            (if wheelchair then Surface_kCompacted ext else Surface_kPath ext),
          max_grade_' =
            (if wheelchair
             then uint32_of_float
                    (get_float pt ''max_grade'' (float_of_uint32 kDefaultMaxGradeWheelchair))
             else uint32_of_float
                    (get_float pt ''max_grade'' (float_of_uint32 kDefaultMaxGradeFoot))),
          speed_' = speed',
          speedfactor_' = fdiv (kSecPerHour * 0.001) speed',
          walkway_factor_' = get_float pt ''walkway_factor'' kDefaultWalkwayFactor,
          sidewalk_factor_' = get_float pt ''sidewalk_factor'' kDefaultSideWalkFactor,
          alley_factor_' = get_float pt ''alley_factor'' kDefaultAlleyFactor,
          driveway_factor_' = get_float pt ''driveway_factor'' kDefaultDrivewayFactor,
          step_penalty_' =
            (if wheelchair then get_float pt ''step_penalty'' kDefaultStepPenaltyWheelchair
             else get_float pt ''step_penalty'' kDefaultStepPenaltyFoot),
          gate_penalty_' = get_float pt ''gate_penalty'' kDefaultGatePenalty,
          maneuver_penalty_' = get_float pt ''maneuver_penalty'' kDefaultManeuverPenalty,
          country_crossing_cost_' =
            get_float pt ''country_crossing_cost'' kDefaultCountryCrossingCost,
          country_crossing_penalty_' =
            get_float pt ''country_crossing_penalty'' kDefaultCountryCrossingPenalty,
          ferry_cost_' = get_float pt ''ferry_cost'' kDefaultFerryCost,
          ferry_penalty_' =
            (if use_ferry < 0.5
             then float_of_uint32 (uint32_of_float
                    (round_float (kMaxFerryPenalty *
                       round_float (1.0 - round_float (use_ferry * 2.0)))))
             else 0.0),
          ferry_weight_' =
            (if use_ferry < 0.5 then 10.0 - use_ferry * 18.0 else 1.5 - use_ferry),
          use_ferry_' = use_ferry \<rparr>)"

subsection \<open>The methods\<close>

definition UseMaxMultiModalDistance :: "PedestrianCost \<Rightarrow> PedestrianCost" where
  "UseMaxMultiModalDistance p = p\<lparr>max_distance_' := transit_start_end_max_distance_' p\<rparr>"

definition GetMaxTransferDistanceMM :: "PedestrianCost \<Rightarrow> uint32_t \<times> PedestrianCost" where
  \<comment> \<open>Not declared \<^verbatim>\<open>const\<close>: the profile is returned with the result.\<close>
  "GetMaxTransferDistanceMM p = (transit_transfer_max_distance_' p, p)"

definition GetModeWeight :: "PedestrianCost \<Rightarrow> real \<times> PedestrianCost" where
  \<comment> \<open>Not declared \<^verbatim>\<open>const\<close>: the profile is returned with the result.\<close>
  "GetModeWeight p = (mode_weight_' p, p)"

definition access_mode :: "PedestrianCost \<Rightarrow> uint32_t" where
  "access_mode p = access_mask_' p"

definition Allowed ::
  "PedestrianCost \<Rightarrow> DirectedEdge \<Rightarrow> EdgeLabel \<Rightarrow> GraphId \<Rightarrow> bool" where
  \<comment> \<open>The tile argument is not read.\<close>
  "Allowed p edge pred edgeid =
    (if forwardaccess edge AND access_mask_' p = 0 \<or>
        surface edge > minimal_allowed_surface_' p \<or>
        is_shortcut edge \<or> IsUserAvoidEdge p edgeid \<or>
        path_distance pred + edge_length edge > max_distance_' p
     then False
     else if \<not> allow_transit_connections_' p \<and> use edge = kTransitConnection
     then False
     else True)"

definition AllowedReverse ::
  "PedestrianCost \<Rightarrow> DirectedEdge \<Rightarrow> EdgeLabel \<Rightarrow> DirectedEdge \<Rightarrow> GraphId \<Rightarrow> bool" where
  \<comment> \<open>The tile argument is not read.\<close>
  "AllowedReverse p edge pred opp_edge opp_edgeid =
    (if forwardaccess opp_edge AND access_mask_' p = 0 \<or>
        surface opp_edge > minimal_allowed_surface_' p \<or>
        is_shortcut opp_edge \<or> IsUserAvoidEdge p opp_edgeid \<or>
        use opp_edge = kTransitConnection
     then False
     else True)"

definition Allowed_node :: "PedestrianCost \<Rightarrow> NodeInfo \<Rightarrow> bool" where
  "Allowed_node p node = (node_access node AND access_mask_' p \<noteq> 0)"

definition EdgeCost :: "PedestrianCost \<Rightarrow> DirectedEdge \<Rightarrow> Cost" where
  "EdgeCost p edge =
    (if use edge = kFerry
     then (let sec = fdiv (float_of_uint32 (edge_length edge) * (kSecPerHour * 0.001))
                          (float_of_uint32 (speed edge))
           in \<lparr>cost = fmul sec (Some (ferry_weight_' p)), secs = sec\<rparr>)
     else
      (let sec = fmul (Some (float_of_uint32 (edge_length edge))) (speedfactor_' p)
       in if use edge = kFootway then \<lparr>cost = fmul sec (Some (walkway_factor_' p)), secs = sec\<rparr>
          else if use edge = kAlley then \<lparr>cost = fmul sec (Some (alley_factor_' p)), secs = sec\<rparr>
          else if use edge = kDriveway
          then \<lparr>cost = fmul sec (Some (driveway_factor_' p)), secs = sec\<rparr>
          else if use edge = kSidewalk
          then \<lparr>cost = fmul sec (Some (sidewalk_factor_' p)), secs = sec\<rparr>
          else if roundabout edge then \<lparr>cost = fmul sec (Some kRoundaboutFactor), secs = sec\<rparr>
          else \<lparr>cost = sec, secs = sec\<rparr>))"

definition TransitionCost :: "PedestrianCost \<Rightarrow> DirectedEdge \<Rightarrow> NodeInfo \<Rightarrow> EdgeLabel \<Rightarrow> Cost" where
  "TransitionCost p edge node pred =
    (if use edge = kSteps then \<lparr>cost = Some (step_penalty_' p), secs = Some 0.0\<rparr>
     else
      (let seconds0 = 0.0;
           penalty0 = 0.0;
           seconds1 = (if node_type node = kBorderControl
                       then seconds0 + country_crossing_cost_' p else seconds0);
           penalty1 = (if node_type node = kBorderControl
                       then penalty0 + country_crossing_penalty_' p
                       else if node_type node = kGate then penalty0 + gate_penalty_' p
                       else penalty0);
           seconds2 = (if pred_use pred \<noteq> kFerry \<and> use edge = kFerry
                       then seconds1 + ferry_cost_' p else seconds1);
           penalty2 = (if pred_use pred \<noteq> kFerry \<and> use edge = kFerry
                       then penalty1 + ferry_penalty_' p else penalty1);
           idx = opp_local_idx pred;
           penalty3 = (if \<not> link edge \<and> \<not> name_consistency node idx (localedgeidx edge)
                       then penalty2 + maneuver_penalty_' p else penalty2);
           seconds3 = (if edge_to_right edge idx \<and> edge_to_left edge idx
                       then seconds2 +
                            float_of_uint32 (kCrossingCosts ! unat (stopimpact edge idx))
                       else seconds2)
       in \<lparr>cost = Some (seconds3 + penalty3), secs = Some seconds3\<rparr>))"

definition TransitionCostReverse ::
  "PedestrianCost \<Rightarrow> uint32_t \<Rightarrow> NodeInfo \<Rightarrow> DirectedEdge \<Rightarrow> DirectedEdge \<Rightarrow> Cost" where
  "TransitionCostReverse p idx node pred edge =
    (if use edge = kSteps then \<lparr>cost = Some (step_penalty_' p), secs = Some 0.0\<rparr>
     else
      (let seconds0 = 0.0;
           penalty0 = 0.0;
           seconds1 = (if node_type node = kBorderControl
                       then seconds0 + country_crossing_cost_' p else seconds0);
           penalty1 = (if node_type node = kBorderControl
                       then penalty0 + country_crossing_penalty_' p
                       else if node_type node = kGate then penalty0 + gate_penalty_' p
                       else penalty0);
           seconds2 = (if use pred \<noteq> kFerry \<and> use edge = kFerry
                       then seconds1 + ferry_cost_' p else seconds1);
           penalty2 = (if use pred \<noteq> kFerry \<and> use edge = kFerry
                       then penalty1 + ferry_penalty_' p else penalty1);
           penalty3 = (if \<not> link edge \<and> \<not> name_consistency node idx (localedgeidx edge)
                       then penalty2 + maneuver_penalty_' p else penalty2);
           seconds3 = (if edge_to_right edge idx \<and> edge_to_left edge idx
                       then seconds2 +
                            float_of_uint32 (kCrossingCosts ! unat (stopimpact edge idx))
                       else seconds2)
       in \<lparr>cost = Some (seconds3 + penalty3), secs = Some seconds3\<rparr>))"

definition AStarCostFactor :: "PedestrianCost \<Rightarrow> float" where
  "AStarCostFactor p =
    (if walkway_factor_' p < 1.0 then fmul (Some (walkway_factor_' p)) (speedfactor_' p)
     else speedfactor_' p)"

definition travel_type :: "Externals \<Rightarrow> PedestrianCost \<Rightarrow> 8 word" where
  "travel_type ext p = PedestrianType_code ext (type_' p)"

subsection \<open>One entry point for the capability set\<close>

text \<open>
  A call of a method on a profile, as the pair of its result and of the profile after the
  call. A method declared \<^verbatim>\<open>const\<close> cannot assign a member, so it returns the profile
  it was given; the three methods that are not \<^verbatim>\<open>const\<close> return the profile their
  embedding computes.
\<close>

datatype method_call =
    Call_Allowed DirectedEdge EdgeLabel GraphId
  | Call_AllowedReverse DirectedEdge EdgeLabel DirectedEdge GraphId
  | Call_EdgeCost DirectedEdge
  | Call_TransitionCost DirectedEdge NodeInfo EdgeLabel
  | Call_TransitionCostReverse uint32_t NodeInfo DirectedEdge DirectedEdge
  | Call_AStarCostFactor
  | Call_UseMaxMultiModalDistance
  | Call_GetMaxTransferDistanceMM
  | Call_GetModeWeight
  | Call_travel_type

datatype method_result =
    Ret_void
  | Ret_bool bool
  | Ret_Cost Cost
  | Ret_float float
  | Ret_uint32 uint32_t
  | Ret_uint8 "8 word"

fun invoke :: "Externals \<Rightarrow> method_call \<Rightarrow> PedestrianCost \<Rightarrow> method_result \<times> PedestrianCost" where
  "invoke ext (Call_Allowed edge pred edgeid) p = (Ret_bool (Allowed p edge pred edgeid), p)"
| "invoke ext (Call_AllowedReverse edge pred opp_edge opp_edgeid) p =
     (Ret_bool (AllowedReverse p edge pred opp_edge opp_edgeid), p)"
| "invoke ext (Call_EdgeCost edge) p = (Ret_Cost (EdgeCost p edge), p)"
| "invoke ext (Call_TransitionCost edge node pred) p =
     (Ret_Cost (TransitionCost p edge node pred), p)"
| "invoke ext (Call_TransitionCostReverse idx node pred edge) p =
     (Ret_Cost (TransitionCostReverse p idx node pred edge), p)"
| "invoke ext Call_AStarCostFactor p = (Ret_float (AStarCostFactor p), p)"
| "invoke ext Call_UseMaxMultiModalDistance p = (Ret_void, UseMaxMultiModalDistance p)"
| "invoke ext Call_GetMaxTransferDistanceMM p =
     (case GetMaxTransferDistanceMM p of (r, p') \<Rightarrow> (Ret_uint32 r, p'))"
| "invoke ext Call_GetModeWeight p =
     (case GetModeWeight p of (r, p') \<Rightarrow> (Ret_float (Some r), p'))"
| "invoke ext Call_travel_type p = (Ret_uint8 (travel_type ext p), p)"

subsection \<open>The cost of an edge, in the words of the specification\<close>

definition EdgeCost_factor_spec :: "PedestrianCost \<Rightarrow> DirectedEdge \<Rightarrow> float" where
  \<comment> \<open>Seconds per meter: the profile's speed factor, and for a ferry a factor derived from
      the speed stored on the edge.\<close>
  "EdgeCost_factor_spec p edge =
     (if use edge = kFerry then fdiv (kSecPerHour * 0.001) (float_of_uint32 (speed edge))
      else speedfactor_' p)"

definition EdgeCost_multiplier_spec :: "PedestrianCost \<Rightarrow> DirectedEdge \<Rightarrow> real" where
  \<comment> \<open>The one multiplier, by precedence.\<close>
  "EdgeCost_multiplier_spec p edge =
     (if use edge = kFerry then ferry_weight_' p
      else if use edge = kFootway then walkway_factor_' p
      else if use edge = kAlley then alley_factor_' p
      else if use edge = kDriveway then driveway_factor_' p
      else if use edge = kSidewalk then sidewalk_factor_' p
      else if roundabout edge then kRoundaboutFactor
      else 1)"

definition EdgeCost_spec :: "PedestrianCost \<Rightarrow> DirectedEdge \<Rightarrow> Cost" where
  "EdgeCost_spec p edge =
     (let time = fmul (Some (float_of_uint32 (edge_length edge))) (EdgeCost_factor_spec p edge)
      in \<lparr>cost = fmul time (Some (EdgeCost_multiplier_spec p edge)), secs = time\<rparr>)"

subsection \<open>The parameterization by type\<close>

definition foot_parameters :: "Externals \<Rightarrow> ptree \<Rightarrow> PedestrianCost \<Rightarrow> bool" where
  \<comment> \<open>The type-specific members hold the foot values: the foot constants, and the foot
      defaults where the settings give no value.\<close>
  "foot_parameters ext pt p =
     (access_mask_' p = kPedestrianAccess ext \<and>
      max_distance_' p = get_uint32 pt ''max_distance'' kMaxDistanceFoot \<and>
      speed_' p = get_float pt ''walking_speed'' kDefaultSpeedFoot \<and>
      step_penalty_' p = get_float pt ''step_penalty'' kDefaultStepPenaltyFoot \<and>
      max_grade_' p =
        uint32_of_float (get_float pt ''max_grade'' (float_of_uint32 kDefaultMaxGradeFoot)) \<and>
      minimal_allowed_surface_' p = Surface_kPath ext)"

definition wheelchair_parameters :: "Externals \<Rightarrow> ptree \<Rightarrow> PedestrianCost \<Rightarrow> bool" where
  "wheelchair_parameters ext pt p =
     (access_mask_' p = kWheelchairAccess ext \<and>
      max_distance_' p = get_uint32 pt ''max_distance'' kMaxDistanceWheelchair \<and>
      speed_' p = get_float pt ''walking_speed'' kDefaultSpeedWheelchair \<and>
      step_penalty_' p = get_float pt ''step_penalty'' kDefaultStepPenaltyWheelchair \<and>
      max_grade_' p =
        uint32_of_float
          (get_float pt ''max_grade'' (float_of_uint32 kDefaultMaxGradeWheelchair)) \<and>
      minimal_allowed_surface_' p = Surface_kCompacted ext)"

subsection \<open>Concrete inputs\<close>

fun sample_code :: "PedestrianType \<Rightarrow> 8 word" where
  "sample_code kFoot = 0"
| "sample_code kWheelchair = 1"
| "sample_code kSegway = 2"

definition sample_externals :: Externals where
  "sample_externals = \<lparr>kPedestrianAccess = 2, kWheelchairAccess = 256,
     Surface_kCompacted = 3, Surface_kPath = 6, PedestrianType_code = sample_code\<rparr>"

definition no_avoid :: "GraphId \<Rightarrow> bool" where
  "no_avoid edgeid = False"

definition no_neighbour :: "uint32_t \<Rightarrow> bool" where
  "no_neighbour idx = False"

definition no_stopimpact :: "uint32_t \<Rightarrow> 3 word" where
  "no_stopimpact idx = 0"

definition consistent_names :: "uint32_t \<Rightarrow> uint32_t \<Rightarrow> bool" where
  "consistent_names from to = True"

definition default_profile :: PedestrianCost where
  \<comment> \<open>The profile of the empty settings object.\<close>
  "default_profile = PedestrianCost_ctor sample_externals no_avoid Map.empty"

definition number_100 :: pdata where
  \<comment> \<open>The JSON number 100.\<close>
  "number_100 = \<lparr>as_string = ''100'', as_float = Some 100, as_uint32 = Some 100\<rparr>"

definition number_minus_5 :: pdata where
  \<comment> \<open>The JSON number -5, which is read as a float here.\<close>
  "number_minus_5 = \<lparr>as_string = ''-5'', as_float = Some (- 5), as_uint32 = None\<rparr>"

definition number_just_below_half :: pdata where
  \<comment> \<open>The JSON number 0.4999847412109375, which is 1/2 - 1/65536, a single-precision
      value.\<close>
  "number_just_below_half = \<lparr>as_string = ''0.4999847412109375'',
     as_float = Some (32767 / 65536), as_uint32 = None\<rparr>"

definition number_tenth :: pdata where
  \<comment> \<open>The JSON number 0.1, read as the nearest single-precision value,
      13421773 / 2^27.\<close>
  "number_tenth = \<lparr>as_string = ''0.1'', as_float = Some (13421773 / 134217728),
     as_uint32 = None\<rparr>"

definition number_024 :: pdata where
  \<comment> \<open>The JSON number 0.24, read as the nearest single-precision value,
      16106127 / 2^26.\<close>
  "number_024 = \<lparr>as_string = ''0.24'', as_float = Some (16106127 / 67108864),
     as_uint32 = None\<rparr>"

definition text_segway :: pdata where
  "text_segway = \<lparr>as_string = ''segway'', as_float = None, as_uint32 = None\<rparr>"

definition road_edge :: DirectedEdge where
  \<comment> \<open>A plain road of 100 m, open to pedestrians.\<close>
  "road_edge = \<lparr>edge_length = 100, use = kRoad, surface = 0, forwardaccess = 2,
     is_shortcut = False, speed = 50, roundabout = False, link = False, localedgeidx = 1,
     edge_to_right = no_neighbour, edge_to_left = no_neighbour, stopimpact = no_stopimpact\<rparr>"

definition ferry_edge :: DirectedEdge where
  \<comment> \<open>A ferry of 1000 m at 40 km/h.\<close>
  "ferry_edge = road_edge\<lparr>edge_length := 1000, use := kFerry, speed := 40\<rparr>"

definition steps_edge :: DirectedEdge where
  "steps_edge = road_edge\<lparr>use := kSteps\<rparr>"

definition border_node :: NodeInfo where
  "border_node = \<lparr>node_type = kBorderControl, node_access = 2,
     name_consistency = consistent_names\<rparr>"

definition road_label :: EdgeLabel where
  "road_label = \<lparr>path_distance = 0, pred_use = kRoad, opp_local_idx = 0\<rparr>"

definition settings_fast_walk :: ptree where
  \<comment> \<open>\<^verbatim>\<open>{"walking_speed": 100}\<close>\<close>
  "settings_fast_walk = [''walking_speed'' \<mapsto> number_100]"

definition settings_negative_step_penalty :: ptree where
  \<comment> \<open>\<^verbatim>\<open>{"step_penalty": -5}\<close>\<close>
  "settings_negative_step_penalty = [''step_penalty'' \<mapsto> number_minus_5]"

definition settings_ferry_just_below_half :: ptree where
  \<comment> \<open>\<^verbatim>\<open>{"use_ferry": 0.4999847412109375}\<close>\<close>
  "settings_ferry_just_below_half = [''use_ferry'' \<mapsto> number_just_below_half]"

definition settings_ferry_tenth :: ptree where
  \<comment> \<open>\<^verbatim>\<open>{"use_ferry": 0.1}\<close>\<close>
  "settings_ferry_tenth = [''use_ferry'' \<mapsto> number_tenth]"

definition settings_ferry_024 :: ptree where
  \<comment> \<open>\<^verbatim>\<open>{"use_ferry": 0.24}\<close>\<close>
  "settings_ferry_024 = [''use_ferry'' \<mapsto> number_024]"

definition settings_segway :: ptree where
  \<comment> \<open>\<^verbatim>\<open>{"type": "segway"}\<close>\<close>
  "settings_segway = [''type'' \<mapsto> text_segway]"

section \<open>Properties\<close>

lemmas ctor_simps = PedestrianCost_ctor_def Let_def get_string_def get_float_def get_uint32_def

subsection \<open>Auxiliary facts\<close>

lemma float_of_uint32_nonneg: "0 \<le> float_of_uint32 w"
  unfolding float_of_uint32_def by (rule of_nat_0_le_iff)

lemma float_uint32_roundtrip:
  assumes "0 \<le> x" and "x < 4294967296"
  shows "float_of_uint32 (uint32_of_float x) = of_int \<lfloor>x\<rfloor>"
proof -
  have lo: "0 \<le> \<lfloor>x\<rfloor>"
    using assms(1) by simp
  have hi: "\<lfloor>x\<rfloor> < 4294967296"
    using assms(2) by (simp add: floor_less_iff)
  have "uint (word_of_int \<lfloor>x\<rfloor> :: 32 word) = \<lfloor>x\<rfloor>"
    using lo hi by (simp add: uint_word_of_int)
  then have "int (unat (word_of_int \<lfloor>x\<rfloor> :: 32 word)) = \<lfloor>x\<rfloor>"
    by simp
  then have "real (unat (word_of_int \<lfloor>x\<rfloor> :: 32 word)) = of_int \<lfloor>x\<rfloor>"
    by (metis of_int_of_nat_eq)
  then show ?thesis
    using assms(1) by (simp add: float_of_uint32_def uint32_of_float_def)
qed

lemma float_uint32_trunc:
  assumes "- 1 < x" and "x < 4294967296"
  shows "float_of_uint32 (uint32_of_float x) = (if 0 \<le> x then of_int \<lfloor>x\<rfloor> else 0)"
proof (cases "0 \<le> x")
  case True
  then show ?thesis
    using float_uint32_roundtrip [OF True assms(2)] by simp
next
  case False
  then have "\<lceil>x\<rceil> = 0"
    using assms(1) by (simp add: ceiling_eq_iff)
  with False show ?thesis
    by (simp add: float_of_uint32_def uint32_of_float_def)
qed

text \<open>The binade search finds the exponent, and rounding is off by half a quantum at most.\<close>

lemma binade_eq:
  "e0 \<le> e \<Longrightarrow> nat (e - e0) \<le> n \<Longrightarrow> \<bar>x\<bar> < 2 powi (e + 1) \<Longrightarrow>
   (e0 < e \<longrightarrow> 2 powi e \<le> \<bar>x\<bar>) \<Longrightarrow> binade n e0 x = e"
proof (induction n arbitrary: e0)
  case 0
  then show ?case by simp
next
  case (Suc n)
  show ?case
  proof (cases "\<bar>x\<bar> < 2 powi (e0 + 1)")
    case True
    have "e = e0"
    proof (rule ccontr)
      assume "e \<noteq> e0"
      with Suc.prems(1) have lt: "e0 < e" by simp
      with Suc.prems(4) have "2 powi e \<le> \<bar>x\<bar>" by simp
      with True have small: "(2::real) powi e < 2 powi (e0 + 1)" by linarith
      from lt have "(2::real) powi (e0 + 1) \<le> 2 powi e"
        by (intro power_int_increasing) auto
      with small show False by linarith
    qed
    with True show ?thesis by simp
  next
    case False
    have ne: "e0 \<noteq> e"
      using False Suc.prems(3) by auto
    with Suc.prems(1) have lt: "e0 + 1 \<le> e" by simp
    have "binade n (e0 + 1) x = e"
      using lt Suc.prems ne by (intro Suc.IH) auto
    with False show ?thesis by simp
  qed
qed

lemma binade_upper:
  "e0 \<le> k \<Longrightarrow> \<bar>x\<bar> < 2 powi (k + 1) \<Longrightarrow> binade n e0 x \<le> k"
proof (induction n arbitrary: e0)
  case 0
  then show ?case by simp
next
  case (Suc n)
  show ?case
  proof (cases "\<bar>x\<bar> < 2 powi (e0 + 1)")
    case True
    with Suc.prems show ?thesis by simp
  next
    case False
    have "e0 \<noteq> k"
      using False Suc.prems(2) by auto
    with Suc.prems(1) have "e0 + 1 \<le> k" by simp
    then have "binade n (e0 + 1) x \<le> k"
      using Suc.prems(2) by (rule Suc.IH)
    with False show ?thesis by simp
  qed
qed

lemma float_exponent_eq:
  assumes "- 126 \<le> e" and "e \<le> 127" and "\<bar>x\<bar> < 2 powi (e + 1)"
    and "- 126 < e \<longrightarrow> 2 powi e \<le> \<bar>x\<bar>"
  shows "float_exponent x = e"
  unfolding float_exponent_def using assms by (intro binade_eq) auto

lemma float_exponent_le:
  "- 126 \<le> k \<Longrightarrow> \<bar>x\<bar> < 2 powi (k + 1) \<Longrightarrow> float_exponent x \<le> k"
  unfolding float_exponent_def by (rule binade_upper)

lemma round_half_even_error: "\<bar>of_int (round_half_even r) - r\<bar> \<le> 1 / 2"
  unfolding round_half_even_def by (auto simp: abs_le_iff)

lemma round_float_error: "\<bar>round_float x - x\<bar> \<le> 2 powi (float_exponent x - 24)"
proof -
  let ?q = "(2::real) powi (float_exponent x - 23)"
  have q: "0 < ?q" by simp
  have "round_float x - x = (of_int (round_half_even (x / ?q)) - x / ?q) * ?q"
    using q by (simp add: round_float_def algebra_simps)
  then have "\<bar>round_float x - x\<bar> = \<bar>of_int (round_half_even (x / ?q)) - x / ?q\<bar> * ?q"
    using q by (simp add: abs_mult)
  also have "\<dots> \<le> 1 / 2 * ?q"
    using q round_half_even_error [of "x / ?q"] by (intro mult_right_mono) auto
  also have "1 / 2 * ?q = 2 powi (float_exponent x - 24)"
    by (simp add: power_int_diff)
  finally show ?thesis .
qed

lemma round_float_error_le:
  assumes "- 126 \<le> k" and "\<bar>x\<bar> < 2 powi (k + 1)"
  shows "\<bar>round_float x - x\<bar> \<le> 2 powi (k - 24)"
proof -
  have "float_exponent x - 24 \<le> k - 24"
    using float_exponent_le [OF assms] by simp
  then have "(2::real) powi (float_exponent x - 24) \<le> 2 powi (k - 24)"
    by (intro power_int_increasing) auto
  with round_float_error [of x] show ?thesis by linarith
qed

lemma round_float_eval:
  "float_exponent x = e \<Longrightarrow>
   round_float x = of_int (round_half_even (x / 2 powi (e - 23))) * 2 powi (e - 23)"
  by (simp add: round_float_def)

lemma round_float_0: "round_float 0 = 0"
  by (simp add: round_float_def round_half_even_def)

lemma round_float_1: "round_float 1 = 1"
proof -
  have "float_exponent 1 = 0"
    by (rule float_exponent_eq) simp_all
  then show ?thesis
    by (simp add: round_float_eval round_half_even_def)
qed

lemma round_float_28800: "round_float 28800 = 28800"
proof -
  have "float_exponent 28800 = 14"
    by (rule float_exponent_eq) simp_all
  then show ?thesis
    by (simp add: round_float_eval round_half_even_def)
qed

text \<open>
  The three rounded operations of the ferry penalty, for a dial below one half: the
  rounded product stays within 1/200 of the exact linear value.
\<close>

lemma ferry_penalty_rounding:
  assumes d0: "0 \<le> d" and lt: "d < 1 / 2"
  shows "\<bar>round_float (28800 * round_float (1 - round_float (d * 2))) - 28800 * (1 - 2 * d)\<bar>
           < 1 / 200"
proof -
  let ?a = "round_float (d * 2)"
  let ?b = "round_float (1 - ?a)"
  let ?c = "round_float (28800 * ?b)"
  have "\<bar>?a - d * 2\<bar> \<le> 2 powi (- 1 - 24)"
    using d0 lt by (intro round_float_error_le) auto
  then have a: "\<bar>?a - d * 2\<bar> \<le> 1 / 33554432"
    by simp
  have "\<bar>1 - ?a\<bar> < 2"
    using a d0 lt by linarith
  then have "\<bar>1 - ?a\<bar> < 2 powi (0 + 1)"
    by simp
  then have "\<bar>?b - (1 - ?a)\<bar> \<le> 2 powi (0 - 24)"
    by (intro round_float_error_le) auto
  then have b: "\<bar>?b - (1 - ?a)\<bar> \<le> 1 / 16777216"
    by simp
  have b': "\<bar>?b - (1 - 2 * d)\<bar> \<le> 3 / 33554432"
    using a b by linarith
  have "\<bar>28800 * ?b\<bar> < 32768"
    using b' d0 lt by linarith
  then have "\<bar>28800 * ?b\<bar> < 2 powi (14 + 1)"
    by simp
  then have "\<bar>?c - 28800 * ?b\<bar> \<le> 2 powi (14 - 24)"
    by (intro round_float_error_le) auto
  then have c: "\<bar>?c - 28800 * ?b\<bar> \<le> 1 / 1024"
    by simp
  show ?thesis
    using b' c by argo
qed

lemma ctor_use_ferry:
  "use_ferry_' (PedestrianCost_ctor ext avoid pt) = get_float pt ''use_ferry'' kDefaultUseFerry"
  by (simp add: PedestrianCost_ctor_def Let_def)

lemma ctor_ferry_penalty:
  "ferry_penalty_' (PedestrianCost_ctor ext avoid pt) =
     (if get_float pt ''use_ferry'' kDefaultUseFerry < 1 / 2
      then float_of_uint32 (uint32_of_float
             (round_float (kMaxFerryPenalty *
                round_float (1 - round_float
                  (get_float pt ''use_ferry'' kDefaultUseFerry * 2)))))
      else 0)"
  by (simp add: PedestrianCost_ctor_def Let_def)

lemma ctor_ferry_weight:
  "ferry_weight_' (PedestrianCost_ctor ext avoid pt) =
     (if get_float pt ''use_ferry'' kDefaultUseFerry < 1 / 2
      then 10 - get_float pt ''use_ferry'' kDefaultUseFerry * 18
      else 3 / 2 - get_float pt ''use_ferry'' kDefaultUseFerry)"
  by (simp add: PedestrianCost_ctor_def Let_def)

text \<open>
  Every ranged option is stored as \<^verbatim>\<open>pt.get\<close> returns it: the default when the key is
  absent, the given value otherwise. The declared ranges are used by the test of the file
  only.
\<close>

lemma ctor_absent_key_default:
  assumes "pt ''walking_speed'' = None" and "pt ''step_penalty'' = None"
    and "pt ''type'' = None"
  shows "speed_' (PedestrianCost_ctor ext avoid pt) = rdef kSpeedFootRange \<and>
         step_penalty_' (PedestrianCost_ctor ext avoid pt) = rdef kStepPenaltyFootRange"
  using assms by (simp add: ctor_simps kSpeedFootRange_def kStepPenaltyFootRange_def)

subsection \<open>Loading the configuration\<close>

text \<open>
  Claim C1: every ranged option is stored within its declared range \<open>[min, max]\<close>. The
  constructor stores the value of the settings as it is: with
  \<^verbatim>\<open>{"walking_speed": 100}\<close> the stored speed is 100, above the maximum 25 of
  \<^verbatim>\<open>kSpeedFootRange\<close>, which the test \<^verbatim>\<open>testPedestrianCostParams\<close> of the same file
  requires as a bound.
\<close>

theorem C1_walking_speed_stored_out_of_range:
  "speed_' (PedestrianCost_ctor sample_externals no_avoid settings_fast_walk) = 100 \<and>
   rmax kSpeedFootRange = 25 \<and>
   rmax kSpeedFootRange < speed_' (PedestrianCost_ctor sample_externals no_avoid settings_fast_walk)"
  by (simp add: ctor_simps settings_fast_walk_def number_100_def kSpeedFootRange_def
      kMaxPedestrianSpeed_def)

subsection \<open>What a call changes\<close>

text \<open>
  Claim C2, as stated: no operation of the capability set changes a field of the profile.
  It fails for \<^verbatim>\<open>UseMaxMultiModalDistance\<close>: on the default profile the maximum distance
  is 100000 before the call and 2415 after it.
\<close>

theorem C2_UseMaxMultiModalDistance_mutates:
  "max_distance_' default_profile = 100000 \<and>
   max_distance_'
     (snd (invoke sample_externals Call_UseMaxMultiModalDistance default_profile)) = 2415"
  by (simp add: default_profile_def ctor_simps UseMaxMultiModalDistance_def
      kMaxDistanceFoot_def kTransitStartEndMaxDistance_def)

text \<open>
  Claim C2, amended: every operation of the capability set other than
  \<^verbatim>\<open>UseMaxMultiModalDistance\<close> leaves the profile as it was, and
  \<^verbatim>\<open>UseMaxMultiModalDistance\<close> assigns the multimodal start/end distance to the maximum
  distance and changes no other field.
\<close>

theorem C2_only_UseMaxMultiModalDistance_mutates:
  "(c \<noteq> Call_UseMaxMultiModalDistance \<longrightarrow> snd (invoke ext c p) = p) \<and>
   snd (invoke ext Call_UseMaxMultiModalDistance p) =
     p\<lparr>max_distance_' := transit_start_end_max_distance_' p\<rparr>"
  by (cases c)
     (simp_all add: UseMaxMultiModalDistance_def GetMaxTransferDistanceMM_def GetModeWeight_def)

theorem C2_only_UseMaxMultiModalDistance_mutates_witness:
  "Call_GetModeWeight \<noteq> Call_UseMaxMultiModalDistance \<and>
   snd (invoke sample_externals Call_GetModeWeight default_profile) = default_profile \<and>
   snd (invoke sample_externals (Call_EdgeCost road_edge) default_profile) = default_profile"
  using C2_only_UseMaxMultiModalDistance_mutates
          [of Call_GetModeWeight sample_externals default_profile]
        C2_only_UseMaxMultiModalDistance_mutates
          [of "Call_EdgeCost road_edge" sample_externals default_profile]
  by simp

subsection \<open>The heuristic factor\<close>

text \<open>
  Claim C3: the A* cost factor is at most the cost per meter of every edge. On the default
  profile the factor is 0.9 * 3.6 / 5.1 = 54/85 (about 0.635), while a ferry edge of
  1000 m at 40 km/h costs 45, that is 0.045 per meter: the factor exceeds the cost per
  meter of the edge.
\<close>

theorem C3_ferry_edge_below_AStarCostFactor:
  "AStarCostFactor default_profile = Some (54 / 85) \<and>
   cost (EdgeCost default_profile ferry_edge) = Some 45 \<and>
   float_of_uint32 (edge_length ferry_edge) = 1000 \<and>
   (45 :: real) / 1000 < 54 / 85"
  by (simp add: AStarCostFactor_def EdgeCost_def default_profile_def ctor_simps
      ferry_edge_def road_edge_def fmul_def fdiv_def float_of_uint32_def kSecPerHour_def
      kDefaultWalkwayFactor_def kDefaultSpeedFoot_def kDefaultUseFerry_def)

subsection \<open>Sign of the costs\<close>

text \<open>
  Claim C4: both components of every edge and transition cost are nonnegative, for a
  profile constructed from any settings. With \<^verbatim>\<open>{"step_penalty": -5}\<close> the step penalty
  is stored as -5, and the transition onto a steps edge costs -5.
\<close>

theorem C4_negative_transition_cost:
  "TransitionCost (PedestrianCost_ctor sample_externals no_avoid settings_negative_step_penalty)
     steps_edge border_node road_label = \<lparr>cost = Some (- 5), secs = Some 0\<rparr>"
  by (simp add: TransitionCost_def ctor_simps settings_negative_step_penalty_def
      number_minus_5_def steps_edge_def road_edge_def)

subsection \<open>Forward and reverse transitions\<close>

text \<open>
  Claim C5: when the local index given to the reverse call is the opposing local index of
  the predecessor label, and the predecessor edge has the use of the label, the forward
  and the reverse transition cost are the same \<^verbatim>\<open>Cost\<close>.
\<close>

theorem C5_TransitionCost_eq_Reverse:
  assumes "idx = opp_local_idx pred" and "use pred_edge = pred_use pred"
  shows "TransitionCost p edge node pred = TransitionCostReverse p idx node pred_edge edge"
  using assms by (simp add: TransitionCost_def TransitionCostReverse_def Let_def)

theorem C5_TransitionCost_eq_Reverse_witness:
  "(0 :: uint32_t) = opp_local_idx road_label \<and> use road_edge = pred_use road_label \<and>
   TransitionCost default_profile ferry_edge border_node road_label =
     TransitionCostReverse default_profile 0 border_node road_edge ferry_edge \<and>
   TransitionCost default_profile ferry_edge border_node road_label =
     \<lparr>cost = Some 900, secs = Some 900\<rparr>"
proof -
  have idx: "(0 :: uint32_t) = opp_local_idx road_label"
    by (simp add: road_label_def)
  have u: "use road_edge = pred_use road_label"
    by (simp add: road_label_def road_edge_def)
  have v: "TransitionCost default_profile ferry_edge border_node road_label =
      \<lparr>cost = Some 900, secs = Some 900\<rparr>"
    by (simp add: TransitionCost_def default_profile_def ctor_simps ferry_edge_def
        road_edge_def border_node_def road_label_def consistent_names_def no_neighbour_def
        kDefaultCountryCrossingCost_def kDefaultCountryCrossingPenalty_def
        kDefaultFerryCost_def kDefaultUseFerry_def)
  show ?thesis
    using idx u v
      C5_TransitionCost_eq_Reverse [OF idx u, of default_profile ferry_edge border_node]
    by simp
qed

subsection \<open>Ferry preference\<close>

text \<open>The constructor at three dials, each a single-precision value.\<close>

lemma ferry_penalty_just_below_half:
  "ferry_penalty_' (PedestrianCost_ctor ext avoid settings_ferry_just_below_half) = 0"
proof -
  have a: "round_float (32767 / 65536 * 2) = 32767 / 32768"
  proof -
    have "float_exponent (32767 / 65536 * 2) = - 1"
      by (rule float_exponent_eq) simp_all
    then show ?thesis
      by (simp add: round_float_eval round_half_even_def)
  qed
  have b: "round_float (1 - 32767 / 32768) = 1 / 32768"
  proof -
    have "float_exponent (1 - 32767 / 32768) = - 15"
      by (rule float_exponent_eq) simp_all
    then show ?thesis
      by (simp add: round_float_eval round_half_even_def)
  qed
  have c: "round_float (28800 * (1 / 32768)) = 225 / 256"
  proof -
    have "float_exponent (28800 * (1 / 32768)) = - 1"
      by (rule float_exponent_eq) simp_all
    then show ?thesis
      by (simp add: round_float_eval round_half_even_def)
  qed
  have u: "get_float settings_ferry_just_below_half ''use_ferry'' kDefaultUseFerry
      = 32767 / 65536"
    by (simp add: get_float_def settings_ferry_just_below_half_def number_just_below_half_def)
  have "ferry_penalty_' (PedestrianCost_ctor ext avoid settings_ferry_just_below_half) =
      float_of_uint32 (uint32_of_float
        (round_float (28800 * round_float (1 - round_float (32767 / 65536 * 2)))))"
    by (simp add: ctor_ferry_penalty u kMaxFerryPenalty_def)
  also have "\<dots> = float_of_uint32 (uint32_of_float (225 / 256))"
    by (simp only: a b c)
  also have "\<dots> = 0"
    by (simp add: float_of_uint32_def uint32_of_float_def)
  finally show ?thesis .
qed

lemma ferry_penalty_tenth:
  "ferry_penalty_' (PedestrianCost_ctor ext avoid settings_ferry_tenth) = 23040"
proof -
  have a: "round_float (13421773 / 134217728 * 2) = 13421773 / 67108864"
  proof -
    have "float_exponent (13421773 / 134217728 * 2) = - 3"
      by (rule float_exponent_eq) simp_all
    then show ?thesis
      by (simp add: round_float_eval round_half_even_def)
  qed
  have b: "round_float (1 - 13421773 / 67108864) = 13421773 / 16777216"
  proof -
    have "float_exponent (1 - 13421773 / 67108864) = - 1"
      by (rule float_exponent_eq) simp_all
    then show ?thesis
      by (simp add: round_float_eval round_half_even_def)
  qed
  have c: "round_float (28800 * (13421773 / 16777216)) = 23040"
  proof -
    have "float_exponent (28800 * (13421773 / 16777216)) = 14"
      by (rule float_exponent_eq) simp_all
    then show ?thesis
      by (simp add: round_float_eval round_half_even_def)
  qed
  have u: "get_float settings_ferry_tenth ''use_ferry'' kDefaultUseFerry
      = 13421773 / 134217728"
    by (simp add: get_float_def settings_ferry_tenth_def number_tenth_def)
  have "ferry_penalty_' (PedestrianCost_ctor ext avoid settings_ferry_tenth) =
      float_of_uint32 (uint32_of_float
        (round_float (28800 * round_float (1 - round_float (13421773 / 134217728 * 2)))))"
    by (simp add: ctor_ferry_penalty u kMaxFerryPenalty_def)
  also have "\<dots> = float_of_uint32 (uint32_of_float 23040)"
    by (simp only: a b c)
  also have "\<dots> = 23040"
    by (simp add: float_of_uint32_def uint32_of_float_def)
  finally show ?thesis .
qed

lemma ferry_penalty_024:
  "ferry_penalty_' (PedestrianCost_ctor ext avoid settings_ferry_024) = 14975"
proof -
  have a: "round_float (16106127 / 67108864 * 2) = 16106127 / 33554432"
  proof -
    have "float_exponent (16106127 / 67108864 * 2) = - 2"
      by (rule float_exponent_eq) simp_all
    then show ?thesis
      by (simp add: round_float_eval round_half_even_def)
  qed
  have b: "round_float (1 - 16106127 / 33554432) = 8724152 / 16777216"
  proof -
    have "float_exponent (1 - 16106127 / 33554432) = - 1"
      by (rule float_exponent_eq) simp_all
    then show ?thesis
      by (simp add: round_float_eval round_half_even_def)
  qed
  have c: "round_float (28800 * (8724152 / 16777216)) = 15335423 / 1024"
  proof -
    have "float_exponent (28800 * (8724152 / 16777216)) = 13"
      by (rule float_exponent_eq) simp_all
    then show ?thesis
      by (simp add: round_float_eval round_half_even_def)
  qed
  have u: "get_float settings_ferry_024 ''use_ferry'' kDefaultUseFerry = 16106127 / 67108864"
    by (simp add: get_float_def settings_ferry_024_def number_024_def)
  have "ferry_penalty_' (PedestrianCost_ctor ext avoid settings_ferry_024) =
      float_of_uint32 (uint32_of_float
        (round_float (28800 * round_float (1 - round_float (16106127 / 67108864 * 2)))))"
    by (simp add: ctor_ferry_penalty u kMaxFerryPenalty_def)
  also have "\<dots> = float_of_uint32 (uint32_of_float (15335423 / 1024))"
    by (simp only: a b c)
  also have "\<dots> = 14975"
    by (simp add: float_of_uint32_def uint32_of_float_def)
  finally show ?thesis .
qed

text \<open>
  Claim C6, as stated: below one half the ferry penalty is the linear function
  28800 * (1 - 2 d) of the dial. It fails at d = 1/2 - 1/65536, a single-precision value
  at which every operation of the constructor is exact: the linear function is 225/256
  there, and the stored penalty is 0, because the constructor converts the product to
  \<^verbatim>\<open>uint32_t\<close> before storing it.
\<close>

theorem C6_ferry_penalty_not_linear:
  "use_ferry_' (PedestrianCost_ctor sample_externals no_avoid settings_ferry_just_below_half)
     = 32767 / 65536 \<and>
   kMaxFerryPenalty * (1 - 2 * (32767 / 65536)) = 225 / 256 \<and>
   ferry_penalty_' (PedestrianCost_ctor sample_externals no_avoid settings_ferry_just_below_half)
     = 0"
proof -
  have u: "use_ferry_'
        (PedestrianCost_ctor sample_externals no_avoid settings_ferry_just_below_half)
      = 32767 / 65536"
    by (simp add: ctor_use_ferry get_float_def settings_ferry_just_below_half_def
        number_just_below_half_def)
  have l: "kMaxFerryPenalty * (1 - 2 * (32767 / 65536)) = 225 / 256"
    by (simp add: kMaxFerryPenalty_def)
  show ?thesis
    using u l ferry_penalty_just_below_half [of sample_externals no_avoid] by blast
qed

text \<open>
  Claim C6, amended: for a dial d in [0, 1] given in the settings, if d < 1/2 the ferry
  penalty is a whole number of seconds that follows the linear value 28800 * (1 - 2 d)
  from about one second below: it is more than the linear value minus 1.005 and at most
  the linear value plus 0.005 (the linear value is computed in single precision and its
  fraction is dropped), and it is 28800 at d = 0; the ferry weight is 10 - 18 d (10 at
  d = 0). If d \<ge> 1/2 the penalty is 0 and the weight is 1 - (d - 1/2), which is 1 at
  d = 1/2 and 1/2 at d = 1. At d = 1/2 the penalty is 0 and the weight is 1, the values
  that the branch below one half tends to. The weights are stated in exact arithmetic.
\<close>

theorem C6_ferry_preference:
  assumes key: "pt ''use_ferry'' = Some v" and val: "as_float v = Some d"
    and d0: "0 \<le> d" and d1: "d \<le> 1"
  shows "(d < 1 / 2 \<longrightarrow>
            (\<exists>n :: nat. ferry_penalty_' (PedestrianCost_ctor ext avoid pt) = real n) \<and>
            kMaxFerryPenalty * (1 - 2 * d) - 1 - 1 / 200
              < ferry_penalty_' (PedestrianCost_ctor ext avoid pt) \<and>
            ferry_penalty_' (PedestrianCost_ctor ext avoid pt)
              \<le> kMaxFerryPenalty * (1 - 2 * d) + 1 / 200 \<and>
            ferry_weight_' (PedestrianCost_ctor ext avoid pt) = 10 - 18 * d) \<and>
         (1 / 2 \<le> d \<longrightarrow>
            ferry_penalty_' (PedestrianCost_ctor ext avoid pt) = 0 \<and>
            ferry_weight_' (PedestrianCost_ctor ext avoid pt) = 1 - (d - 1 / 2)) \<and>
         (d = 0 \<longrightarrow>
            ferry_penalty_' (PedestrianCost_ctor ext avoid pt) = 28800 \<and>
            ferry_weight_' (PedestrianCost_ctor ext avoid pt) = 10) \<and>
         (d = 1 / 2 \<longrightarrow>
            ferry_penalty_' (PedestrianCost_ctor ext avoid pt) = 0 \<and>
            ferry_weight_' (PedestrianCost_ctor ext avoid pt) = 1) \<and>
         (d = 1 \<longrightarrow>
            ferry_penalty_' (PedestrianCost_ctor ext avoid pt) = 0 \<and>
            ferry_weight_' (PedestrianCost_ctor ext avoid pt) = 1 / 2)"
proof -
  let ?p = "PedestrianCost_ctor ext avoid pt"
  let ?x = "28800 * (1 - 2 * d)"
  let ?c = "round_float (28800 * round_float (1 - round_float (d * 2)))"
  have u: "get_float pt ''use_ferry'' kDefaultUseFerry = d"
    using key val by (simp add: get_float_def)
  have pen: "d < 1 / 2 \<Longrightarrow> ferry_penalty_' ?p = float_of_uint32 (uint32_of_float ?c)"
    by (simp add: ctor_ferry_penalty u kMaxFerryPenalty_def)
  have nat: "d < 1 / 2 \<Longrightarrow> \<exists>n :: nat. ferry_penalty_' ?p = real n"
    using pen unfolding float_of_uint32_def by blast
  have bounds: "?x - 1 - 1 / 200 < ferry_penalty_' ?p \<and> ferry_penalty_' ?p \<le> ?x + 1 / 200"
    if lt: "d < 1 / 2"
  proof -
    have close: "\<bar>?c - ?x\<bar> < 1 / 200"
      using ferry_penalty_rounding [OF d0 lt] .
    have x0: "0 < ?x" and x1: "?x \<le> 28800"
      using d0 lt by simp_all
    have c0: "- 1 < ?c" and c1: "?c < 4294967296"
      using close x0 x1 by argo+
    have t: "ferry_penalty_' ?p = (if 0 \<le> ?c then of_int \<lfloor>?c\<rfloor> else 0)"
      using pen [OF lt] float_uint32_trunc [OF c0 c1] by simp
    show ?thesis
    proof (cases "0 \<le> ?c")
      case True
      have "?c - 1 < of_int \<lfloor>?c\<rfloor>" and "of_int \<lfloor>?c\<rfloor> \<le> ?c"
        by linarith+
      moreover have "ferry_penalty_' ?p = of_int \<lfloor>?c\<rfloor>"
        using t True by simp
      ultimately show ?thesis
        using close by argo
    next
      case False
      then have "ferry_penalty_' ?p = 0"
        using t by simp
      then show ?thesis
        using False close x0 by argo
    qed
  qed
  have high: "1 / 2 \<le> d \<Longrightarrow> ferry_penalty_' ?p = 0"
    by (simp add: ctor_ferry_penalty u)
  have wlow: "d < 1 / 2 \<Longrightarrow> ferry_weight_' ?p = 10 - 18 * d"
    by (simp add: ctor_ferry_weight u)
  have whigh: "1 / 2 \<le> d \<Longrightarrow> ferry_weight_' ?p = 3 / 2 - d"
    by (simp add: ctor_ferry_weight u)
  have zero: "d = 0 \<Longrightarrow> ferry_penalty_' ?p = 28800"
    using pen
    by (simp add: round_float_0 round_float_1 round_float_28800 float_of_uint32_def
        uint32_of_float_def)
  show ?thesis
    using nat bounds high wlow whigh zero by (auto simp add: kMaxFerryPenalty_def)
qed

theorem C6_ferry_preference_witness:
  "settings_ferry_tenth ''use_ferry'' = Some number_tenth \<and>
   as_float number_tenth = Some (13421773 / 134217728) \<and>
   (0 :: real) \<le> 13421773 / 134217728 \<and> (13421773 / 134217728 :: real) \<le> 1 \<and>
   ferry_penalty_' (PedestrianCost_ctor sample_externals no_avoid settings_ferry_tenth)
     = 23040 \<and>
   kMaxFerryPenalty * (1 - 2 * (13421773 / 134217728)) - 1 - 1 / 200 < (23040 :: real) \<and>
   (23040 :: real) \<le> kMaxFerryPenalty * (1 - 2 * (13421773 / 134217728)) + 1 / 200 \<and>
   ferry_weight_' (PedestrianCost_ctor sample_externals no_avoid settings_ferry_tenth)
     = 10 - 18 * (13421773 / 134217728)"
proof -
  have key: "settings_ferry_tenth ''use_ferry'' = Some number_tenth"
    by (simp add: settings_ferry_tenth_def)
  have val: "as_float number_tenth = Some (13421773 / 134217728)"
    by (simp add: number_tenth_def)
  show ?thesis
    using key val
      ferry_penalty_tenth [of sample_externals no_avoid]
      C6_ferry_preference
        [where pt = settings_ferry_tenth and v = number_tenth
           and d = "13421773 / 134217728" and ext = sample_externals and avoid = no_avoid]
    by simp
qed

subsection \<open>The cost of an edge\<close>

text \<open>
  Claim C7: the time of an edge is its length times the seconds-per-meter factor (the
  profile's speed factor, and for a ferry a factor from the speed stored on the edge), and
  its cost is that time times one multiplier chosen by precedence: the ferry weight, then
  the walkway, alley, driveway and sidewalk factors by use, then the roundabout factor,
  then 1. For an edge that matches none of these cases, the time is the length times the
  profile's speed factor and the cost is equal to the time.
\<close>

theorem C7_EdgeCost_refines_spec:
  "EdgeCost p edge = EdgeCost_spec p edge \<and>
   (use edge \<notin> {kFerry, kFootway, kAlley, kDriveway, kSidewalk} \<and> \<not> roundabout edge \<longrightarrow>
      secs (EdgeCost p edge) =
        fmul (Some (float_of_uint32 (edge_length edge))) (speedfactor_' p) \<and>
      cost (EdgeCost p edge) = secs (EdgeCost p edge))"
  by (simp add: EdgeCost_def EdgeCost_spec_def EdgeCost_factor_spec_def
      EdgeCost_multiplier_spec_def fmul_def fdiv_def Let_def split: option.splits)

theorem C7_EdgeCost_refines_spec_witness:
  "use road_edge \<notin> {kFerry, kFootway, kAlley, kDriveway, kSidewalk} \<and>
   \<not> roundabout road_edge \<and>
   EdgeCost default_profile road_edge = EdgeCost_spec default_profile road_edge \<and>
   EdgeCost default_profile road_edge = \<lparr>cost = Some (1200 / 17), secs = Some (1200 / 17)\<rparr>"
proof -
  have h: "use road_edge \<notin> {kFerry, kFootway, kAlley, kDriveway, kSidewalk} \<and>
      \<not> roundabout road_edge"
    by (simp add: road_edge_def)
  have v: "EdgeCost default_profile road_edge =
      \<lparr>cost = Some (1200 / 17), secs = Some (1200 / 17)\<rparr>"
    by (simp add: EdgeCost_def default_profile_def ctor_simps road_edge_def fmul_def fdiv_def
        float_of_uint32_def kSecPerHour_def kDefaultSpeedFoot_def)
  show ?thesis
    using h v C7_EdgeCost_refines_spec [of default_profile road_edge] by simp
qed

subsection \<open>Crossing a border\<close>

text \<open>
  Claim C8, as stated: at a border-control node the time of the transition is at least
  the country-crossing cost, for every destination edge. It fails for a steps edge: on
  the default profile the crossing cost is 600 and the transition onto a steps edge at a
  border-control node takes time 0.
\<close>

theorem C8_steps_at_border_take_no_time:
  "node_type border_node = kBorderControl \<and>
   country_crossing_cost_' default_profile = 600 \<and>
   secs (TransitionCost default_profile steps_edge border_node road_label) = Some 0"
  by (simp add: TransitionCost_def default_profile_def ctor_simps steps_edge_def
      road_edge_def kDefaultCountryCrossingCost_def border_node_def)

text \<open>
  Claim C8, amended: at a border-control node, for a destination edge that is not steps
  and a profile whose ferry cost is not negative, the time of the transition is at least
  the country-crossing cost, for every predecessor and all other attributes of the node
  and of the edge.
\<close>

theorem C8_border_time_lower_bound:
  assumes "node_type node = kBorderControl" and "use edge \<noteq> kSteps"
    and "0 \<le> ferry_cost_' p"
  shows "\<exists>t. secs (TransitionCost p edge node pred) = Some t \<and> country_crossing_cost_' p \<le> t"
  using assms
    float_of_uint32_nonneg [of "kCrossingCosts ! unat (stopimpact edge (opp_local_idx pred))"]
  by (simp add: TransitionCost_def Let_def)

theorem C8_border_time_lower_bound_witness:
  "node_type border_node = kBorderControl \<and> use ferry_edge \<noteq> kSteps \<and>
   0 \<le> ferry_cost_' default_profile \<and>
   (\<exists>t. secs (TransitionCost default_profile ferry_edge border_node road_label) = Some t \<and>
        country_crossing_cost_' default_profile \<le> t)"
proof -
  have a: "node_type border_node = kBorderControl"
    by (simp add: border_node_def)
  have b: "use ferry_edge \<noteq> kSteps"
    by (simp add: ferry_edge_def road_edge_def)
  have c: "0 \<le> ferry_cost_' default_profile"
    by (simp add: default_profile_def ctor_simps kDefaultFerryCost_def)
  show ?thesis
    using a b c C8_border_time_lower_bound [OF a b c, of road_label] by simp
qed

subsection \<open>Access on the reverse path\<close>

text \<open>
  Claim C9: \<^verbatim>\<open>AllowedReverse\<close> is true exactly when the opposing edge has the access
  bit of the profile, a surface not worse than the minimal allowed one, is no shortcut, is
  not avoided by the user and is no transit connection. The result does not depend on the
  edge itself nor on the predecessor (its path distance in particular), and a transit
  connection is rejected also by a profile that allows transit connections.
\<close>

theorem C9_AllowedReverse_characterisation:
  "AllowedReverse p edge pred opp_edge opp_edgeid =
     (forwardaccess opp_edge AND access_mask_' p \<noteq> 0 \<and>
      surface opp_edge \<le> minimal_allowed_surface_' p \<and>
      \<not> is_shortcut opp_edge \<and> \<not> IsUserAvoidEdge p opp_edgeid \<and>
      use opp_edge \<noteq> kTransitConnection) \<and>
   AllowedReverse p edge pred opp_edge opp_edgeid =
     AllowedReverse p edge' (pred'\<lparr>path_distance := d\<rparr>) opp_edge opp_edgeid \<and>
   AllowedReverse (p\<lparr>allow_transit_connections_' := True\<rparr>) edge pred
     (opp_edge\<lparr>use := kTransitConnection\<rparr>) opp_edgeid = False"
  by (auto simp add: AllowedReverse_def)

subsection \<open>The type of pedestrian\<close>

text \<open>
  Claim C10: with type "segway" the profile reports the travel type segway and has the
  foot parameterization (access mask, maximum distance, walking speed, step penalty,
  maximum grade, minimal allowed surface). Every type other than "wheelchair" gets the
  foot parameterization, and "wheelchair" gets the wheelchair one.
\<close>

theorem C10_segway_has_foot_parameters:
  "(get_string pt ''type'' ''foot'' = ''segway'' \<longrightarrow>
      travel_type ext (PedestrianCost_ctor ext avoid pt) = PedestrianType_code ext kSegway \<and>
      foot_parameters ext pt (PedestrianCost_ctor ext avoid pt)) \<and>
   (get_string pt ''type'' ''foot'' \<noteq> ''wheelchair'' \<longrightarrow>
      foot_parameters ext pt (PedestrianCost_ctor ext avoid pt)) \<and>
   (get_string pt ''type'' ''foot'' = ''wheelchair'' \<longrightarrow>
      wheelchair_parameters ext pt (PedestrianCost_ctor ext avoid pt))"
  by (simp add: PedestrianCost_ctor_def Let_def travel_type_def foot_parameters_def
      wheelchair_parameters_def)

theorem C10_segway_has_foot_parameters_witness:
  "get_string settings_segway ''type'' ''foot'' = ''segway'' \<and>
   get_string settings_segway ''type'' ''foot'' \<noteq> ''wheelchair'' \<and>
   travel_type sample_externals (PedestrianCost_ctor sample_externals no_avoid settings_segway)
     = PedestrianType_code sample_externals kSegway \<and>
   foot_parameters sample_externals settings_segway
     (PedestrianCost_ctor sample_externals no_avoid settings_segway) \<and>
   access_mask_' (PedestrianCost_ctor sample_externals no_avoid settings_segway) = 2 \<and>
   max_distance_' (PedestrianCost_ctor sample_externals no_avoid settings_segway) = 100000 \<and>
   speed_' (PedestrianCost_ctor sample_externals no_avoid settings_segway) = 51 / 10 \<and>
   step_penalty_' (PedestrianCost_ctor sample_externals no_avoid settings_segway) = 30 \<and>
   max_grade_' (PedestrianCost_ctor sample_externals no_avoid settings_segway) = 90 \<and>
   minimal_allowed_surface_' (PedestrianCost_ctor sample_externals no_avoid settings_segway)
     = 6"
proof -
  have t: "get_string settings_segway ''type'' ''foot'' = ''segway''"
    by (simp add: get_string_def settings_segway_def text_segway_def)
  have k: "settings_segway ''max_distance'' = None"
    "settings_segway ''walking_speed'' = None"
    "settings_segway ''step_penalty'' = None"
    "settings_segway ''max_grade'' = None"
    by (simp_all add: settings_segway_def)
  have g: "uint32_of_float (float_of_uint32 kDefaultMaxGradeFoot) = 90"
    by (simp add: kDefaultMaxGradeFoot_def float_of_uint32_def uint32_of_float_def)
  show ?thesis
    using t k g
      C10_segway_has_foot_parameters [of settings_segway sample_externals no_avoid]
    by (simp add: foot_parameters_def get_uint32_def get_float_def sample_externals_def
        kMaxDistanceFoot_def kDefaultSpeedFoot_def kDefaultStepPenaltyFoot_def)
qed

end
